theory Spec2Isabelle
  imports Complex_Main
begin

section \<open>Cinema schema: data model\<close>

text \<open>
  The embedding follows \<^verbatim>\<open>supabase/migrations/20251107170000_cinema_schema.sql\<close>.
  A table is the list of its rows, a nullable column is an \<open>option\<close>, a \<^verbatim>\<open>uuid\<close> is a
  natural number and a \<^verbatim>\<open>timestamp with time zone\<close> is a point on an integer time line.
  A statement that raises (a constraint violation) returns \<open>Inl\<close> of the error; a statement
  that completes returns \<open>Inr\<close> of its value and the database it leaves behind.
\<close>

type_synonym uuid = nat
type_synonym timestamptz = int

text \<open>\<^verbatim>\<open>create type public.reservation_status as enum (...)\<close>\<close>

datatype reservation_status = pending | confirmed | cancelled | checked_in | no_show

text \<open>\<^verbatim>\<open>public.profiles\<close>: created elsewhere; the migration adds \<^verbatim>\<open>role text not null\<close>
  and reads \<^verbatim>\<open>user_id\<close>.\<close>

record profile =
  profile_user_id :: uuid
  role :: string

record movie =
  mov_id :: uuid
  title :: string
  is_active :: bool

record screening =
  scr_id :: uuid
  movie_id :: uuid
  starts_at :: timestamptz
  ends_at :: "timestamptz option"
  auditorium :: string
  capacity :: int
  scr_created_at :: timestamptz
  scr_updated_at :: timestamptz

record reservation =
  res_id :: uuid
  res_screening_id :: uuid
  res_user_id :: uuid
  res_status :: reservation_status
  seat_label :: "string option"
  qr_token :: string
  reserved_at :: timestamptz
  res_created_at :: timestamptz
  res_updated_at :: timestamptz

record attendance_log =
  log_id :: uuid
  log_reservation_id :: uuid
  scanned_by :: "uuid option"
  scanned_at :: timestamptz
  log_created_at :: timestamptz

text \<open>The database: the tables of the migration, and the identifiers of \<^verbatim>\<open>auth.users\<close>,
  which the foreign keys of \<^verbatim>\<open>reservations\<close> and \<^verbatim>\<open>attendance_logs\<close> reference.\<close>

record db =
  auth_users :: "uuid list"
  profiles :: "profile list"
  movies :: "movie list"
  screenings :: "screening list"
  reservations :: "reservation list"
  attendance_logs :: "attendance_log list"

text \<open>What a call reads from its session and transaction: \<^verbatim>\<open>auth.uid()\<close>, \<^verbatim>\<open>now()\<close>
  (fixed for the transaction) and the value \<^verbatim>\<open>gen_random_uuid()\<close> yields for a column
  default.\<close>

record env =
  auth_uid :: "uuid option"
  now :: timestamptz
  gen_random_uuid :: uuid

datatype pg_error =
  Unique_violation string
| Foreign_key_violation string

text \<open>\<^verbatim>\<open>create type public.qr_validation_result as (...)\<close>: every field of a composite
  type is nullable.\<close>

record qr_validation_result =
  reservation_id :: "uuid option"
  screening_id :: "uuid option"
  status :: "reservation_status option"
  message :: "string option"
  already_scanned :: "bool option"
  is_valid :: "bool option"

section \<open>Authorization predicate\<close>

text \<open>\<^verbatim>\<open>select exists (select 1 from public.profiles where user_id = (select auth.uid())
  and role = 'admin')\<close>. With no session user the comparison is null and no row qualifies.\<close>

definition current_user_is_admin :: "env \<Rightarrow> db \<Rightarrow> bool" where
  "current_user_is_admin e d =
     (case auth_uid e of
        None \<Rightarrow> False
      | Some u \<Rightarrow> \<exists>p \<in> set (profiles d). profile_user_id p = u \<and> role p = ''admin'')"

section \<open>QR validation routine\<close>

text \<open>The messages of the routine, as the bytes of their UTF-8 text. The specification
  quotes them in English translation.\<close>

definition msg_unauthorized :: string where
  "msg_unauthorized =
     ''Solo personal autorizado puede validar c'' @ [CHR 0xC3, CHR 0xB3] @ ''digos.''"

definition msg_invalid_qr :: string where
  "msg_invalid_qr = ''C'' @ [CHR 0xC3, CHR 0xB3] @ ''digo QR inv'' @ [CHR 0xC3, CHR 0xA1] @ ''lido.''"

definition msg_not_found :: string where
  "msg_not_found =
     ''No se encontr'' @ [CHR 0xC3, CHR 0xB3] @ '' una reserva para este c''
       @ [CHR 0xC3, CHR 0xB3] @ ''digo.''"

definition msg_cancelled :: string where
  "msg_cancelled =
     ''La reserva est'' @ [CHR 0xC3, CHR 0xA1]
       @ '' cancelada y no puede registrarse asistencia.''"

definition msg_already_validated :: string where
  "msg_already_validated = ''Esta reserva ya fue validada previamente.''"

definition msg_registered :: string where
  "msg_registered = ''Asistencia registrada correctamente.''"

text \<open>\<^verbatim>\<open>trim(text)\<close> removes the longest run of space characters (U+0020, and no other
  character) from both ends.\<close>

definition trim :: "string \<Rightarrow> string" where
  "trim s = rev (dropWhile (\<lambda>c. c = CHR '' '') (rev (dropWhile (\<lambda>c. c = CHR '' '') s)))"

definition coalesce :: "'a option \<Rightarrow> 'a \<Rightarrow> 'a" where
  "coalesce x y = (case x of None \<Rightarrow> y | Some v \<Rightarrow> v)"

text \<open>A row constructor \<^verbatim>\<open>(a, b, c, d, e, f)\<close> assigned to \<^verbatim>\<open>v_result\<close>.\<close>

definition result_row ::
  "uuid option \<Rightarrow> uuid option \<Rightarrow> reservation_status option \<Rightarrow> string \<Rightarrow> bool \<Rightarrow> bool
     \<Rightarrow> qr_validation_result" where
  "result_row rid sid st msg scanned valid =
     \<lparr>reservation_id = rid, screening_id = sid, status = st, message = Some msg,
      already_scanned = Some scanned, is_valid = Some valid\<rparr>"

text \<open>\<^verbatim>\<open>select * into v_reservation from public.reservations where qr_token = p_token\<close>:
  the first qualifying row, \<^verbatim>\<open>found\<close> iff there is one. A null token equals nothing.\<close>

definition select_by_token :: "db \<Rightarrow> string option \<Rightarrow> reservation option" where
  "select_by_token d p_token = find (\<lambda>r. Some (qr_token r) = p_token) (reservations d)"

definition select_by_id :: "db \<Rightarrow> uuid \<Rightarrow> reservation option" where
  "select_by_id d rid = find (\<lambda>r. res_id r = rid) (reservations d)"

text \<open>\<^verbatim>\<open>exists (select 1 from public.attendance_logs where reservation_id = ...)\<close>\<close>

definition log_exists :: "db \<Rightarrow> uuid \<Rightarrow> bool" where
  "log_exists d rid = (\<exists>l \<in> set (attendance_logs d). log_reservation_id l = rid)"

text \<open>\<^verbatim>\<open>insert into public.attendance_logs (reservation_id, scanned_by) values (...)\<close>.
  The other columns take their defaults. The unique indexes are checked as the row is
  inserted (primary key first, then \<^verbatim>\<open>attendance_logs_reservation_id_unique\<close>), the
  foreign keys at the end of the statement.\<close>

definition insert_attendance_log :: "env \<Rightarrow> db \<Rightarrow> uuid \<Rightarrow> uuid option \<Rightarrow> pg_error + db" where
  "insert_attendance_log e d rid p_scanner =
     (let row = \<lparr>log_id = gen_random_uuid e, log_reservation_id = rid,
                 scanned_by = p_scanner, scanned_at = now e, log_created_at = now e\<rparr>
      in if \<exists>l \<in> set (attendance_logs d). log_id l = log_id row
           then Inl (Unique_violation ''attendance_logs_pkey'')
         else if \<exists>l \<in> set (attendance_logs d). log_reservation_id l = rid
           then Inl (Unique_violation ''attendance_logs_reservation_id_unique'')
         else if \<not> (\<exists>r \<in> set (reservations d). res_id r = rid)
           then Inl (Foreign_key_violation ''attendance_logs_reservation_id_fkey'')
         else if (case p_scanner of None \<Rightarrow> False | Some u \<Rightarrow> u \<notin> set (auth_users d))
           then Inl (Foreign_key_violation ''attendance_logs_scanned_by_fkey'')
         else Inr (d\<lparr>attendance_logs := attendance_logs d @ [row]\<rparr>))"

text \<open>\<^verbatim>\<open>update public.reservations set status = 'checked_in', updated_at = now()
  where id = ...\<close>; the trigger \<^verbatim>\<open>reservations_set_updated_at\<close> sets the same
  \<^verbatim>\<open>updated_at\<close>.\<close>

definition update_checked_in :: "env \<Rightarrow> db \<Rightarrow> uuid \<Rightarrow> db" where
  "update_checked_in e d rid =
     d\<lparr>reservations :=
         map (\<lambda>r. if res_id r = rid
                   then r\<lparr>res_status := checked_in, res_updated_at := now e\<rparr> else r)
             (reservations d)\<rparr>"

text \<open>\<^verbatim>\<open>public.validate_reservation_qr(p_token text, p_scanner uuid default null)\<close>.
  The guards return early with the database as it was. A \<^verbatim>\<open>select into\<close> that finds no row
  leaves every field of the row variable null.\<close>

definition validate_reservation_qr ::
  "env \<Rightarrow> db \<Rightarrow> string option \<Rightarrow> uuid option \<Rightarrow> pg_error + (qr_validation_result \<times> db)" where
  "validate_reservation_qr e d p_token p_scanner =
     (if \<not> current_user_is_admin e d then
        Inr (result_row None None (Some cancelled) msg_unauthorized False False, d)
      else if coalesce (map_option trim p_token) '''' = '''' then
        Inr (result_row None None (Some cancelled) msg_invalid_qr False False, d)
      else
        (case select_by_token d p_token of
           None \<Rightarrow> Inr (result_row None None (Some cancelled) msg_not_found False False, d)
         | Some v \<Rightarrow>
             if res_status v = cancelled then
               Inr (result_row (Some (res_id v)) (Some (res_screening_id v))
                      (Some (res_status v)) msg_cancelled False False, d)
             else if log_exists d (res_id v) then
               Inr (result_row (Some (res_id v)) (Some (res_screening_id v))
                      (Some (res_status v)) msg_already_validated True False, d)
             else
               (case insert_attendance_log e d (res_id v) p_scanner of
                  Inl err \<Rightarrow> Inl err
                | Inr d1 \<Rightarrow>
                    (let d2 = update_checked_in e d1 (res_id v) in
                     case select_by_id d2 (res_id v) of
                       None \<Rightarrow> Inr (result_row None None None msg_registered False True, d2)
                     | Some v' \<Rightarrow>
                         Inr (result_row (Some (res_id v')) (Some (res_screening_id v'))
                                (Some (res_status v')) msg_registered False True, d2)))))"

text \<open>A sequence of calls with one token, each in its own transaction and each with its own
  session and scanner. A call that raises is rolled back: the next call sees the database
  as that call found it.\<close>

fun scan_all ::
  "db \<Rightarrow> string option \<Rightarrow> (env \<times> uuid option) list
     \<Rightarrow> (pg_error + qr_validation_result) list \<times> db" where
  "scan_all d p_token [] = ([], d)"
| "scan_all d p_token ((e, p_scanner) # calls) =
     (case validate_reservation_qr e d p_token p_scanner of
        Inl err \<Rightarrow> (case scan_all d p_token calls of (rs, d') \<Rightarrow> (Inl err # rs, d'))
      | Inr (res, d1) \<Rightarrow> (case scan_all d1 p_token calls of (rs, d') \<Rightarrow> (Inr res # rs, d')))"

section \<open>Reservations table: uniqueness constraints\<close>

text \<open>\<^verbatim>\<open>insert into public.reservations\<close> of one complete row (defaults already filled in).
  The unique indexes are checked as the row is inserted, in the order of their creation:
  the primary key, \<^verbatim>\<open>reservations_user_screening_unique\<close>,
  \<^verbatim>\<open>reservations_qr_token_unique\<close>; the foreign keys at the end of the statement.\<close>

definition insert_reservation :: "db \<Rightarrow> reservation \<Rightarrow> pg_error + db" where
  "insert_reservation d row =
     (if \<exists>r \<in> set (reservations d). res_id r = res_id row
        then Inl (Unique_violation ''reservations_pkey'')
      else if \<exists>r \<in> set (reservations d).
                res_screening_id r = res_screening_id row \<and> res_user_id r = res_user_id row
        then Inl (Unique_violation ''reservations_user_screening_unique'')
      else if \<exists>r \<in> set (reservations d). qr_token r = qr_token row
        then Inl (Unique_violation ''reservations_qr_token_unique'')
      else if \<not> (\<exists>s \<in> set (screenings d). scr_id s = res_screening_id row)
        then Inl (Foreign_key_violation ''reservations_screening_id_fkey'')
      else if res_user_id row \<notin> set (auth_users d)
        then Inl (Foreign_key_violation ''reservations_user_id_fkey'')
      else Inr (d\<lparr>reservations := reservations d @ [row]\<rparr>))"

text \<open>The database after a statement: a statement that raises is rolled back.\<close>

definition after_statement :: "db \<Rightarrow> pg_error + db \<Rightarrow> db" where
  "after_statement d outcome = (case outcome of Inl err \<Rightarrow> d | Inr d' \<Rightarrow> d')"

section \<open>Aggregation view \<^verbatim>\<open>screening_stats\<close>\<close>

record screening_stat =
  stat_screening_id :: uuid
  stat_movie_id :: uuid
  movie_title :: "string option"
  stat_starts_at :: timestamptz
  stat_ends_at :: "timestamptz option"
  stat_auditorium :: string
  stat_capacity :: int
  total_reservations :: nat
  active_reservations :: nat
  checked_in_count :: nat
  occupancy_rate :: rat
  attendance_rate :: rat
  stat_created_at :: timestamptz
  stat_updated_at :: timestamptz

text \<open>\<^verbatim>\<open>nullif(a, b)\<close> is null when \<open>a = b\<close>.\<close>

definition nullif :: "'a \<Rightarrow> 'a \<Rightarrow> 'a option" where
  "nullif a b = (if a = b then None else Some a)"

text \<open>Division of \<^verbatim>\<open>numeric\<close> values, taken as exact on the rationals: null when an operand
  is null, the error \<^verbatim>\<open>division_by_zero\<close> when the divisor is zero.\<close>

datatype numeric_error = Division_by_zero

definition numeric_div :: "rat option \<Rightarrow> rat option \<Rightarrow> numeric_error + rat option" where
  "numeric_div a b =
     (case a of
        None \<Rightarrow> Inr None
      | Some x \<Rightarrow>
          (case b of
             None \<Rightarrow> Inr None
           | Some y \<Rightarrow> if y = 0 then Inl Division_by_zero else Inr (Some (x / y))))"

text \<open>\<^verbatim>\<open>round(v numeric, s int)\<close>: to \<open>s\<close> decimal places, ties away from zero.\<close>

definition round_numeric :: "rat \<Rightarrow> nat \<Rightarrow> rat" where
  "round_numeric v s =
     (if 0 \<le> v then of_int \<lfloor>v * 10 ^ s + 1 / 2\<rfloor> / 10 ^ s
      else - (of_int \<lfloor>- v * 10 ^ s + 1 / 2\<rfloor> / 10 ^ s))"

text \<open>\<^verbatim>\<open>coalesce(round((a / nullif(b, 0)) * 100, 2), 0)\<close>, the shape of both rates.\<close>

definition percentage :: "rat \<Rightarrow> rat \<Rightarrow> numeric_error + rat" where
  "percentage a b =
     (case numeric_div (Some a) (nullif b 0) of
        Inl err \<Rightarrow> Inl err
      | Inr q \<Rightarrow> Inr (coalesce (map_option (\<lambda>v. round_numeric (v * 100) 2) q) 0))"

text \<open>The rows of \<^verbatim>\<open>reservations\<close> that the left join attaches to a screening;
  \<^verbatim>\<open>count(r.id)\<close> counts them, since \<^verbatim>\<open>id\<close> is never null in a joined row and the row of
  nulls of an unmatched screening counts for nothing.\<close>

definition joined_reservations :: "db \<Rightarrow> screening \<Rightarrow> reservation list" where
  "joined_reservations d s = filter (\<lambda>r. res_screening_id r = scr_id s) (reservations d)"

definition is_active_status :: "reservation_status \<Rightarrow> bool" where
  "is_active_status st = (st \<in> set [pending, confirmed, checked_in, no_show])"

text \<open>One row of the view. The primary keys of \<^verbatim>\<open>screenings\<close> and \<^verbatim>\<open>movies\<close> make each
  group of \<^verbatim>\<open>group by s.id, m.title\<close> one screening with at most one movie.\<close>

definition screening_stats_row :: "db \<Rightarrow> screening \<Rightarrow> numeric_error + screening_stat" where
  "screening_stats_row d s =
     (let rs = joined_reservations d s;
          total = length rs;
          active = length (filter (\<lambda>r. is_active_status (res_status r)) rs);
          checked = length (filter (\<lambda>r. res_status r = checked_in) rs)
      in case percentage (of_nat total) (of_int (capacity s)) of
           Inl err \<Rightarrow> Inl err
         | Inr occupancy \<Rightarrow>
             (case percentage (of_nat checked) (of_nat total) of
                Inl err \<Rightarrow> Inl err
              | Inr attendance \<Rightarrow>
                  Inr \<lparr>stat_screening_id = scr_id s, stat_movie_id = movie_id s,
                       movie_title =
                         map_option title (find (\<lambda>m. mov_id m = movie_id s) (movies d)),
                       stat_starts_at = starts_at s, stat_ends_at = ends_at s,
                       stat_auditorium = auditorium s, stat_capacity = capacity s,
                       total_reservations = total, active_reservations = active,
                       checked_in_count = checked, occupancy_rate = occupancy,
                       attendance_rate = attendance, stat_created_at = scr_created_at s,
                       stat_updated_at = scr_updated_at s\<rparr>))"

text \<open>The view: one row for each screening; the query fails when a row does.\<close>

fun screening_stats_rows :: "db \<Rightarrow> screening list \<Rightarrow> numeric_error + screening_stat list" where
  "screening_stats_rows d [] = Inr []"
| "screening_stats_rows d (s # ss) =
     (case screening_stats_row d s of
        Inl err \<Rightarrow> Inl err
      | Inr row \<Rightarrow>
          (case screening_stats_rows d ss of
             Inl err \<Rightarrow> Inl err
           | Inr rows \<Rightarrow> Inr (row # rows)))"

definition screening_stats :: "db \<Rightarrow> numeric_error + screening_stat list" where
  "screening_stats d = screening_stats_rows d (screenings d)"

section \<open>Example data\<close>

definition ex_admin :: env where
  "ex_admin = \<lparr>auth_uid = Some 1, now = 1000, gen_random_uuid = 500\<rparr>"

definition ex_student :: env where
  "ex_student = \<lparr>auth_uid = Some 2, now = 1000, gen_random_uuid = 500\<rparr>"

definition ex_res :: "uuid \<Rightarrow> uuid \<Rightarrow> reservation_status \<Rightarrow> string \<Rightarrow> reservation" where
  "ex_res i u st tok =
     \<lparr>res_id = i, res_screening_id = 10, res_user_id = u, res_status = st, seat_label = None,
      qr_token = tok, reserved_at = 900, res_created_at = 900, res_updated_at = 900\<rparr>"

definition ex_screening :: screening where
  "ex_screening =
     \<lparr>scr_id = 10, movie_id = 5, starts_at = 2000, ends_at = None, auditorium = ''A'',
      capacity = 50, scr_created_at = 800, scr_updated_at = 800\<rparr>"

definition ex_db :: db where
  "ex_db =
     \<lparr>auth_users = [1, 2, 3, 4],
      profiles = [\<lparr>profile_user_id = 1, role = ''admin''\<rparr>,
                  \<lparr>profile_user_id = 2, role = ''student''\<rparr>],
      movies = [\<lparr>mov_id = 5, title = ''Dune Part 2'', is_active = True\<rparr>],
      screenings = [ex_screening],
      reservations = [ex_res 20 2 confirmed ''a1b2c3d4e5f60718'',
                      ex_res 21 3 cancelled ''0011223344556677'',
                      ex_res 22 4 checked_in ''8899aabbccddeeff''],
      attendance_logs = [\<lparr>log_id = 40, log_reservation_id = 22, scanned_by = Some 1,
                           scanned_at = 950, log_created_at = 950\<rparr>]\<rparr>"

text \<open>The same database with other reservations.\<close>

definition ex_db_with :: "reservation list \<Rightarrow> db" where
  "ex_db_with rs = ex_db\<lparr>reservations := rs, attendance_logs := []\<rparr>"

text \<open>Thirty reservations of the example screening, the first ten checked in.\<close>

definition ex_dune_reservations :: "reservation list" where
  "ex_dune_reservations =
     map (\<lambda>i. ex_res (100 + i) (200 + i) (if i < 10 then checked_in else confirmed) (replicate (Suc i) CHR ''a''))
       [0 ..< 30]"

text \<open>The example database after the admin has scanned the token of reservation 20.\<close>

definition ex_db_scanned :: db where
  "ex_db_scanned =
     ex_db\<lparr>reservations :=
             [ex_res 20 2 checked_in ''a1b2c3d4e5f60718'' \<lparr>res_updated_at := 1000\<rparr>,
              ex_res 21 3 cancelled ''0011223344556677'',
              ex_res 22 4 checked_in ''8899aabbccddeeff''],
           attendance_logs :=
             attendance_logs ex_db @
               [\<lparr>log_id = 500, log_reservation_id = 20, scanned_by = Some 1,
                 scanned_at = 1000, log_created_at = 1000\<rparr>]\<rparr>"

lemmas ex_defs = ex_admin_def ex_student_def ex_res_def ex_db_def ex_db_with_def ex_screening_def

section \<open>Properties of the validation routine\<close>

subsection \<open>The token-shape test\<close>

text \<open>The test \<^verbatim>\<open>coalesce(trim(p_token), '') = ''\<close> holds of the null token and of the tokens made
  of spaces only.\<close>

lemma all_dropWhile_iff: "(\<forall>x \<in> set (dropWhile P xs). P x) = (\<forall>x \<in> set xs. P x)"
  by (induction xs) auto

lemma trim_eq_Nil_iff: "(trim s = []) = (\<forall>c \<in> set s. c = CHR '' '')"
proof -
  have "(trim s = []) = (dropWhile (\<lambda>c. c = CHR '' '') (rev (dropWhile (\<lambda>c. c = CHR '' '') s)) = [])"
    unfolding trim_def by (rule rev_is_Nil_conv)
  also have "\<dots> = (\<forall>x \<in> set (dropWhile (\<lambda>c. c = CHR '' '') s). x = CHR '' '')"
    unfolding dropWhile_eq_Nil_conv set_rev ..
  also have "\<dots> = (\<forall>c \<in> set s. c = CHR '' '')"
    by (rule all_dropWhile_iff)
  finally show ?thesis .
qed

lemma blank_token_iff:
  "(coalesce (map_option trim p_token) '''' = '''') =
     (case p_token of None \<Rightarrow> True | Some s \<Rightarrow> (\<forall>c \<in> set s. c = CHR '' ''))"
  by (cases p_token) (simp_all add: coalesce_def trim_eq_Nil_iff)

subsection \<open>The early returns\<close>

lemma validate_unauthorized:
  "\<not> current_user_is_admin e d \<Longrightarrow>
     validate_reservation_qr e d p_token p_scanner =
       Inr (result_row None None (Some cancelled) msg_unauthorized False False, d)"
  by (simp add: validate_reservation_qr_def)

lemma validate_blank:
  "current_user_is_admin e d \<Longrightarrow> coalesce (map_option trim p_token) '''' = '''' \<Longrightarrow>
     validate_reservation_qr e d p_token p_scanner =
       Inr (result_row None None (Some cancelled) msg_invalid_qr False False, d)"
  by (simp add: validate_reservation_qr_def)

lemma validate_not_found:
  "current_user_is_admin e d \<Longrightarrow> coalesce (map_option trim p_token) '''' \<noteq> '''' \<Longrightarrow>
   select_by_token d p_token = None \<Longrightarrow>
     validate_reservation_qr e d p_token p_scanner =
       Inr (result_row None None (Some cancelled) msg_not_found False False, d)"
  by (simp add: validate_reservation_qr_def)

lemma validate_cancelled:
  "current_user_is_admin e d \<Longrightarrow> coalesce (map_option trim p_token) '''' \<noteq> '''' \<Longrightarrow>
   select_by_token d p_token = Some v \<Longrightarrow> res_status v = cancelled \<Longrightarrow>
     validate_reservation_qr e d p_token p_scanner =
       Inr (result_row (Some (res_id v)) (Some (res_screening_id v)) (Some cancelled)
              msg_cancelled False False, d)"
  by (simp add: validate_reservation_qr_def)

lemma validate_already:
  "current_user_is_admin e d \<Longrightarrow> coalesce (map_option trim p_token) '''' \<noteq> '''' \<Longrightarrow>
   select_by_token d p_token = Some v \<Longrightarrow> res_status v \<noteq> cancelled \<Longrightarrow>
   log_exists d (res_id v) \<Longrightarrow>
     validate_reservation_qr e d p_token p_scanner =
       Inr (result_row (Some (res_id v)) (Some (res_screening_id v)) (Some (res_status v))
              msg_already_validated True False, d)"
  by (simp add: validate_reservation_qr_def)

subsection \<open>Lookups, insert and update\<close>

lemma find_distinct_key:
  "distinct (map f xs) \<Longrightarrow> v \<in> set xs \<Longrightarrow> find (\<lambda>r. f r = f v) xs = Some v"
  by (induction xs) (auto simp: rev_image_eqI)

lemma select_by_token_SomeD:
  "select_by_token d p_token = Some v \<Longrightarrow> p_token = Some (qr_token v) \<and> v \<in> set (reservations d)"
  unfolding select_by_token_def find_Some_iff by (metis nth_mem)

lemma select_by_token_unique:
  "distinct (map qr_token (reservations d)) \<Longrightarrow> v \<in> set (reservations d) \<Longrightarrow>
     select_by_token d (Some (qr_token v)) = Some v"
  using find_distinct_key [of qr_token "reservations d" v] by (simp add: select_by_token_def)

lemma select_by_id_unique:
  "distinct (map res_id (reservations d)) \<Longrightarrow> v \<in> set (reservations d) \<Longrightarrow>
     select_by_id d (res_id v) = Some v"
  using find_distinct_key [of res_id "reservations d" v] by (simp add: select_by_id_def)

lemma select_by_id_update:
  "select_by_id (update_checked_in e d rid) rid =
     map_option (\<lambda>r. r\<lparr>res_status := checked_in, res_updated_at := now e\<rparr>) (select_by_id d rid)"
proof -
  have "find (\<lambda>r. res_id r = rid)
          (map (\<lambda>r. if res_id r = rid then r\<lparr>res_status := checked_in, res_updated_at := now e\<rparr> else r) xs) =
        map_option (\<lambda>r. r\<lparr>res_status := checked_in, res_updated_at := now e\<rparr>)
          (find (\<lambda>r. res_id r = rid) xs)" for xs
    by (induction xs) auto
  then show ?thesis
    by (simp add: select_by_id_def update_checked_in_def)
qed

lemma select_by_token_update:
  "select_by_token d p_token = Some v \<Longrightarrow>
   select_by_token (update_checked_in e d (res_id v)) p_token =
     Some (v\<lparr>res_status := checked_in, res_updated_at := now e\<rparr>)"
proof -
  have "find (\<lambda>r. Some (qr_token r) = p_token) xs = Some v \<Longrightarrow>
        find (\<lambda>r. Some (qr_token r) = p_token)
          (map (\<lambda>r. if res_id r = res_id v then r\<lparr>res_status := checked_in, res_updated_at := now e\<rparr> else r) xs) =
        Some (v\<lparr>res_status := checked_in, res_updated_at := now e\<rparr>)" for xs
    by (induction xs) (auto split: if_splits)
  then show "select_by_token d p_token = Some v \<Longrightarrow> ?thesis"
    by (simp add: select_by_token_def update_checked_in_def)
qed

lemma insert_attendance_log_ok:
  assumes "\<forall>l \<in> set (attendance_logs d). log_id l \<noteq> gen_random_uuid e"
    and "\<not> log_exists d rid"
    and "\<exists>r \<in> set (reservations d). res_id r = rid"
    and "\<forall>u. p_scanner = Some u \<longrightarrow> u \<in> set (auth_users d)"
  shows "insert_attendance_log e d rid p_scanner =
           Inr (d\<lparr>attendance_logs := attendance_logs d @
                  [\<lparr>log_id = gen_random_uuid e, log_reservation_id = rid, scanned_by = p_scanner,
                    scanned_at = now e, log_created_at = now e\<rparr>]\<rparr>)"
  using assms by (auto simp: insert_attendance_log_def log_exists_def split: option.splits)

lemma validate_success:
  assumes admin: "current_user_is_admin e d"
    and nb: "coalesce (map_option trim p_token) '''' \<noteq> ''''"
    and sel: "select_by_token d p_token = Some v"
    and st: "res_status v \<noteq> cancelled"
    and nolog: "\<not> log_exists d (res_id v)"
    and ins: "insert_attendance_log e d (res_id v) p_scanner = Inr d1"
    and pk: "distinct (map res_id (reservations d))"
  shows "validate_reservation_qr e d p_token p_scanner =
           Inr (result_row (Some (res_id v)) (Some (res_screening_id v)) (Some checked_in)
                  msg_registered False True, update_checked_in e d1 (res_id v))"
proof -
  have vin: "v \<in> set (reservations d)"
    using sel by (simp add: select_by_token_SomeD)
  have res1: "reservations d1 = reservations d"
    using ins by (auto simp: insert_attendance_log_def Let_def split: if_splits)
  have "select_by_id d1 (res_id v) = Some v"
    using select_by_id_unique [of d v] pk vin res1 by (simp add: select_by_id_def)
  then have "select_by_id (update_checked_in e d1 (res_id v)) (res_id v) =
               Some (v\<lparr>res_status := checked_in, res_updated_at := now e\<rparr>)"
    by (simp add: select_by_id_update)
  then show ?thesis
    using admin nb sel st nolog ins by (simp add: validate_reservation_qr_def)
qed

subsection \<open>Successful validation\<close>

text \<open>
  Claim C1, as amended. An admin scans a token that the lookup resolves to a reservation
  \<open>v\<close> which is not cancelled and has no attendance log. Provided the token is not blank
  (it has a character other than a space), the scanner is null or an existing user, and
  the identifier generated for the log row is not in use, the routine appends exactly one
  attendance log row carrying the reservation's identifier and the scanner, sets the status
  of that reservation to \<open>checked_in\<close> and its update timestamp to the current time, and
  returns valid, not already scanned, the message \<open>msg_registered\<close>
  (in English: attendance registered successfully), both identifiers and the status \<open>checked_in\<close>.
\<close>

theorem validate_registers_attendance:
  assumes admin: "current_user_is_admin e d"
    and sel: "select_by_token d p_token = Some v"
    and nb: "\<exists>c \<in> set (qr_token v). c \<noteq> CHR '' ''"
    and st: "res_status v \<noteq> cancelled"
    and nolog: "\<not> log_exists d (res_id v)"
    and scanner: "\<forall>u. p_scanner = Some u \<longrightarrow> u \<in> set (auth_users d)"
    and fresh: "\<forall>l \<in> set (attendance_logs d). log_id l \<noteq> gen_random_uuid e"
    and pk: "distinct (map res_id (reservations d))"
  shows "validate_reservation_qr e d p_token p_scanner =
           Inr (result_row (Some (res_id v)) (Some (res_screening_id v)) (Some checked_in)
                  msg_registered False True,
                d\<lparr>reservations :=
                     map (\<lambda>r. if res_id r = res_id v
                               then r\<lparr>res_status := checked_in, res_updated_at := now e\<rparr> else r)
                         (reservations d),
                   attendance_logs :=
                     attendance_logs d @
                       [\<lparr>log_id = gen_random_uuid e, log_reservation_id = res_id v,
                         scanned_by = p_scanner, scanned_at = now e, log_created_at = now e\<rparr>]\<rparr>)"
proof -
  have tok: "p_token = Some (qr_token v)" and vin: "v \<in> set (reservations d)"
    using sel by (simp_all add: select_by_token_SomeD)
  have nblank: "coalesce (map_option trim p_token) '''' \<noteq> ''''"
    using nb unfolding blank_token_iff tok by auto
  have ins: "insert_attendance_log e d (res_id v) p_scanner =
               Inr (d\<lparr>attendance_logs := attendance_logs d @
                      [\<lparr>log_id = gen_random_uuid e, log_reservation_id = res_id v,
                        scanned_by = p_scanner, scanned_at = now e, log_created_at = now e\<rparr>]\<rparr>)"
    using fresh nolog vin scanner by (intro insert_attendance_log_ok) auto
  show ?thesis
    unfolding validate_success [OF admin nblank sel st nolog ins pk]
    by (simp add: update_checked_in_def)
qed

text \<open>The theorem at the example database: the admin scans the token of reservation 20.\<close>

theorem validate_registers_attendance_witness:
  "validate_reservation_qr ex_admin ex_db (Some ''a1b2c3d4e5f60718'') (Some 1) =
     Inr (result_row (Some 20) (Some 10) (Some checked_in) msg_registered False True,
          ex_db\<lparr>reservations :=
                  [ex_res 20 2 checked_in ''a1b2c3d4e5f60718'' \<lparr>res_updated_at := 1000\<rparr>,
                   ex_res 21 3 cancelled ''0011223344556677'',
                   ex_res 22 4 checked_in ''8899aabbccddeeff''],
                attendance_logs :=
                  attendance_logs ex_db @
                    [\<lparr>log_id = 500, log_reservation_id = 20, scanned_by = Some 1,
                      scanned_at = 1000, log_created_at = 1000\<rparr>]\<rparr>)"
proof -
  have h1: "current_user_is_admin ex_admin ex_db"
    by (simp add: current_user_is_admin_def ex_defs)
  have h2: "select_by_token ex_db (Some ''a1b2c3d4e5f60718'') =
              Some (ex_res 20 2 confirmed ''a1b2c3d4e5f60718'')"
    by (simp add: select_by_token_def ex_defs)
  have h3: "\<exists>c \<in> set (qr_token (ex_res 20 2 confirmed ''a1b2c3d4e5f60718'')). c \<noteq> CHR '' ''"
    by (simp add: ex_defs)
  have h4: "res_status (ex_res 20 2 confirmed ''a1b2c3d4e5f60718'') \<noteq> cancelled"
    by (simp add: ex_defs)
  have h5: "\<not> log_exists ex_db (res_id (ex_res 20 2 confirmed ''a1b2c3d4e5f60718''))"
    by (simp add: log_exists_def ex_defs)
  have h6: "\<forall>u. Some (1::nat) = Some u \<longrightarrow> u \<in> set (auth_users ex_db)"
    by (simp add: ex_defs)
  have h7: "\<forall>l \<in> set (attendance_logs ex_db). log_id l \<noteq> gen_random_uuid ex_admin"
    by (simp add: ex_defs)
  have h8: "distinct (map res_id (reservations ex_db))"
    by (simp add: ex_defs)
  show ?thesis
    using validate_registers_attendance [OF h1 h2 h3 h4 h5 h6 h7 h8]
    by (simp add: ex_defs)
qed

text \<open>
  Without those provisions the claim fails: a reservation whose token is a single space is
  found by the lookup but the call stops at the token-shape guard; a scanner that is not a
  user, and a generated identifier that is already a primary key, make the insert raise.
\<close>

theorem validate_registers_attendance_counterexample:
  "select_by_token (ex_db_with [ex_res 30 2 confirmed '' '']) (Some '' '') =
     Some (ex_res 30 2 confirmed '' '')
   \<and> validate_reservation_qr ex_admin (ex_db_with [ex_res 30 2 confirmed '' '']) (Some '' '') (Some 1) =
       Inr (result_row None None (Some cancelled) msg_invalid_qr False False,
            ex_db_with [ex_res 30 2 confirmed '' ''])
   \<and> validate_reservation_qr ex_admin ex_db (Some ''a1b2c3d4e5f60718'') (Some 9) =
       Inl (Foreign_key_violation ''attendance_logs_scanned_by_fkey'')
   \<and> validate_reservation_qr (ex_admin\<lparr>gen_random_uuid := 40\<rparr>) ex_db
         (Some ''a1b2c3d4e5f60718'') (Some 1) =
       Inl (Unique_violation ''attendance_logs_pkey'')"
  by code_simp

subsection \<open>Order of the guards\<close>

text \<open>
  Claim C3. The guards are tried in the order authorization, token shape (empty after
  \<^verbatim>\<open>trim\<close>), lookup by token, cancelled status, existing attendance log, and the first
  that applies decides the result. A caller who is not an admin gets invalid, the message
  \<open>msg_unauthorized\<close> (in English: only authorized staff may validate codes), null
  identifiers and already-scanned false, whatever the token and whatever the
  reservations table holds: the result does not depend on either. Each later case assumes
  that the earlier guards did not apply, and holds whether or not a later guard would
  apply: a cancelled reservation is reported as cancelled also when it has a log.
\<close>

theorem guards_strictly_ordered:
  "(\<not> current_user_is_admin e d \<longrightarrow>
      validate_reservation_qr e d p_token p_scanner =
        Inr (result_row None None (Some cancelled) msg_unauthorized False False, d))
   \<and> (current_user_is_admin e d \<and> coalesce (map_option trim p_token) '''' = '''' \<longrightarrow>
      validate_reservation_qr e d p_token p_scanner =
        Inr (result_row None None (Some cancelled) msg_invalid_qr False False, d))
   \<and> (current_user_is_admin e d \<and> coalesce (map_option trim p_token) '''' \<noteq> '''' \<and>
      select_by_token d p_token = None \<longrightarrow>
      validate_reservation_qr e d p_token p_scanner =
        Inr (result_row None None (Some cancelled) msg_not_found False False, d))
   \<and> (current_user_is_admin e d \<and> coalesce (map_option trim p_token) '''' \<noteq> '''' \<and>
      select_by_token d p_token = Some v \<and> res_status v = cancelled \<longrightarrow>
      validate_reservation_qr e d p_token p_scanner =
        Inr (result_row (Some (res_id v)) (Some (res_screening_id v)) (Some cancelled)
               msg_cancelled False False, d))
   \<and> (current_user_is_admin e d \<and> coalesce (map_option trim p_token) '''' \<noteq> '''' \<and>
      select_by_token d p_token = Some v \<and> res_status v \<noteq> cancelled \<and>
      log_exists d (res_id v) \<longrightarrow>
      validate_reservation_qr e d p_token p_scanner =
        Inr (result_row (Some (res_id v)) (Some (res_screening_id v)) (Some (res_status v))
               msg_already_validated True False, d))"
  by (intro conjI impI; (elim conjE)?)
     (simp_all add: validate_unauthorized validate_blank validate_not_found validate_cancelled
        validate_already)

text \<open>The five cases at the example database. The first call is by a student with the token
  of a cancelled reservation; the fourth scans a cancelled reservation that has a log.\<close>

theorem guards_strictly_ordered_witness:
  "validate_reservation_qr ex_student ex_db (Some ''0011223344556677'') None =
     Inr (result_row None None (Some cancelled) msg_unauthorized False False, ex_db)
   \<and> validate_reservation_qr ex_admin ex_db (Some ''  '') None =
     Inr (result_row None None (Some cancelled) msg_invalid_qr False False, ex_db)
   \<and> validate_reservation_qr ex_admin ex_db (Some ''ffff'') None =
     Inr (result_row None None (Some cancelled) msg_not_found False False, ex_db)
   \<and> validate_reservation_qr ex_admin
        (ex_db\<lparr>attendance_logs :=
           [\<lparr>log_id = 41, log_reservation_id = 21, scanned_by = None, scanned_at = 950,
             log_created_at = 950\<rparr>]\<rparr>)
        (Some ''0011223344556677'') None =
     Inr (result_row (Some 21) (Some 10) (Some cancelled) msg_cancelled False False,
          ex_db\<lparr>attendance_logs :=
           [\<lparr>log_id = 41, log_reservation_id = 21, scanned_by = None, scanned_at = 950,
             log_created_at = 950\<rparr>]\<rparr>)
   \<and> validate_reservation_qr ex_admin ex_db (Some ''8899aabbccddeeff'') None =
     Inr (result_row (Some 22) (Some 10) (Some checked_in) msg_already_validated True False,
          ex_db)"
proof -
  let ?d4 = "ex_db\<lparr>attendance_logs :=
           [\<lparr>log_id = 41, log_reservation_id = 21, scanned_by = None, scanned_at = 950,
             log_created_at = 950\<rparr>]\<rparr>"
  have adm: "current_user_is_admin ex_admin ex_db" "current_user_is_admin ex_admin ?d4"
    and stu: "\<not> current_user_is_admin ex_student ex_db"
    by (simp_all add: current_user_is_admin_def ex_defs)
  have c1: "validate_reservation_qr ex_student ex_db (Some ''0011223344556677'') None =
     Inr (result_row None None (Some cancelled) msg_unauthorized False False, ex_db)"
    using guards_strictly_ordered [of ex_student ex_db "Some ''0011223344556677''" None] stu
    by simp
  have c2: "validate_reservation_qr ex_admin ex_db (Some ''  '') None =
     Inr (result_row None None (Some cancelled) msg_invalid_qr False False, ex_db)"
    using guards_strictly_ordered [of ex_admin ex_db "Some ''  ''" None] adm
    by (simp add: coalesce_def trim_def)
  have c3: "validate_reservation_qr ex_admin ex_db (Some ''ffff'') None =
     Inr (result_row None None (Some cancelled) msg_not_found False False, ex_db)"
    using guards_strictly_ordered [of ex_admin ex_db "Some ''ffff''" None] adm
    by (simp add: coalesce_def trim_def select_by_token_def ex_defs)
  have c4: "validate_reservation_qr ex_admin ?d4 (Some ''0011223344556677'') None =
     Inr (result_row (Some 21) (Some 10) (Some cancelled) msg_cancelled False False, ?d4)"
    using guards_strictly_ordered [of ex_admin ?d4 "Some ''0011223344556677''" None
        "ex_res 21 3 cancelled ''0011223344556677''"] adm
    by (simp add: coalesce_def trim_def select_by_token_def ex_defs)
  have c5: "validate_reservation_qr ex_admin ex_db (Some ''8899aabbccddeeff'') None =
     Inr (result_row (Some 22) (Some 10) (Some checked_in) msg_already_validated True False,
          ex_db)"
    using guards_strictly_ordered [of ex_admin ex_db "Some ''8899aabbccddeeff''" None
        "ex_res 22 4 checked_in ''8899aabbccddeeff''"] adm
    by (simp add: coalesce_def trim_def select_by_token_def log_exists_def ex_defs)
  show ?thesis
    using c1 c2 c3 c4 c5 by blast
qed

subsection \<open>Cancelled reservations\<close>

text \<open>
  Claim C4, as amended. For every reservation whose status is \<open>cancelled\<close>, in a table
  whose tokens are unique, an admin call with its token leaves the database as it was and
  returns invalid, not already scanned, with status \<open>cancelled\<close>. When the token is not
  blank (it has a character other than a space) the message is \<open>msg_cancelled\<close> (in
  English: reservation is cancelled and cannot be checked in) and the reservation and screening identifiers are those of the reservation.
\<close>

theorem cancelled_never_checked_in:
  assumes admin: "current_user_is_admin e d"
    and vin: "v \<in> set (reservations d)"
    and st: "res_status v = cancelled"
    and uniq: "distinct (map qr_token (reservations d))"
  shows "\<exists>res. validate_reservation_qr e d (Some (qr_token v)) p_scanner = Inr (res, d)
           \<and> is_valid res = Some False \<and> already_scanned res = Some False
           \<and> status res = Some cancelled
           \<and> ((\<exists>c \<in> set (qr_token v). c \<noteq> CHR '' '') \<longrightarrow>
                res = result_row (Some (res_id v)) (Some (res_screening_id v)) (Some cancelled)
                        msg_cancelled False False)"
proof (cases "coalesce (map_option trim (Some (qr_token v))) '''' = ''''")
  case True
  then have "\<not> (\<exists>c \<in> set (qr_token v). c \<noteq> CHR '' '')"
    unfolding blank_token_iff by auto
  then show ?thesis
    using validate_blank [OF admin True] by (simp add: result_row_def)
next
  case False
  have "select_by_token d (Some (qr_token v)) = Some v"
    using uniq vin by (rule select_by_token_unique)
  then show ?thesis
    using validate_cancelled [OF admin False _ st] by (simp add: result_row_def)
qed

theorem cancelled_never_checked_in_witness:
  "validate_reservation_qr ex_admin ex_db (Some ''0011223344556677'') (Some 1) =
     Inr (result_row (Some 21) (Some 10) (Some cancelled) msg_cancelled False False, ex_db)"
proof -
  have h1: "current_user_is_admin ex_admin ex_db"
    by (simp add: current_user_is_admin_def ex_defs)
  have h2: "ex_res 21 3 cancelled ''0011223344556677'' \<in> set (reservations ex_db)"
    by (simp add: ex_defs)
  have h3: "res_status (ex_res 21 3 cancelled ''0011223344556677'') = cancelled"
    by (simp add: ex_defs)
  have h4: "distinct (map qr_token (reservations ex_db))"
    by (simp add: ex_defs)
  show ?thesis
    using cancelled_never_checked_in [OF h1 h2 h3 h4, of "Some 1"]
    by (auto simp: ex_defs)
qed

text \<open>A cancelled reservation whose token is one space: the call with its token stops at
  the token-shape guard, with the message of that guard and null identifiers.\<close>

theorem cancelled_never_checked_in_counterexample:
  "ex_res 31 3 cancelled '' '' \<in> set (reservations (ex_db_with [ex_res 31 3 cancelled '' '']))
   \<and> res_status (ex_res 31 3 cancelled '' '') = cancelled
   \<and> current_user_is_admin ex_admin (ex_db_with [ex_res 31 3 cancelled '' ''])
   \<and> validate_reservation_qr ex_admin (ex_db_with [ex_res 31 3 cancelled '' ''])
        (Some (qr_token (ex_res 31 3 cancelled '' ''))) (Some 1) =
       Inr (result_row None None (Some cancelled) msg_invalid_qr False False,
            ex_db_with [ex_res 31 3 cancelled '' ''])
   \<and> msg_invalid_qr \<noteq> msg_cancelled"
  by code_simp

subsection \<open>Unknown tokens\<close>

text \<open>
  Claim C5, as amended. For every token that is not blank (it has a character other than a
  space) and is the token of no reservation, an admin call returns invalid, not already
  scanned, null reservation and screening identifiers and the message \<open>msg_not_found\<close>
  (in English: no reservation found for this code).
\<close>

theorem unknown_token_not_found:
  assumes admin: "current_user_is_admin e d"
    and nb: "\<exists>c \<in> set s. c \<noteq> CHR '' ''"
    and none: "\<forall>r \<in> set (reservations d). qr_token r \<noteq> s"
  shows "validate_reservation_qr e d (Some s) p_scanner =
           Inr (result_row None None (Some cancelled) msg_not_found False False, d)"
proof -
  have "coalesce (map_option trim (Some s)) '''' \<noteq> ''''"
    using nb unfolding blank_token_iff by auto
  moreover have "select_by_token d (Some s) = None"
    using none by (simp add: select_by_token_def find_None_iff)
  ultimately show ?thesis
    using admin by (rule validate_not_found [rotated])
qed

theorem unknown_token_not_found_witness:
  "validate_reservation_qr ex_admin ex_db (Some ''ffff'') (Some 1) =
     Inr (result_row None None (Some cancelled) msg_not_found False False, ex_db)"
proof -
  have h1: "current_user_is_admin ex_admin ex_db"
    by (simp add: current_user_is_admin_def ex_defs)
  have h2: "\<exists>c \<in> set ''ffff''. c \<noteq> CHR '' ''"
    by simp
  have h3: "\<forall>r \<in> set (reservations ex_db). qr_token r \<noteq> ''ffff''"
    by (simp add: ex_defs)
  show ?thesis
    using unknown_token_not_found [OF h1 h2 h3] .
qed

text \<open>A token of one space is not empty and matches no reservation, and the call returns
  the message of the token-shape guard.\<close>

theorem unknown_token_not_found_counterexample:
  "current_user_is_admin ex_admin ex_db
   \<and> '' '' \<noteq> ''''
   \<and> '' '' \<notin> set (map qr_token (reservations ex_db))
   \<and> validate_reservation_qr ex_admin ex_db (Some '' '') (Some 1) =
       Inr (result_row None None (Some cancelled) msg_invalid_qr False False, ex_db)
   \<and> msg_invalid_qr \<noteq> msg_not_found"
  by code_simp

subsection \<open>Blank tokens\<close>

text \<open>
  Claim C6, as amended. For every token that is null, empty or made of space characters
  (U+0020) only, an admin call returns invalid with the message \<open>msg_invalid_qr\<close>
  (in English: invalid QR code), null identifiers and already-scanned false, whatever the reservations
  table holds.
\<close>

theorem blank_token_invalid:
  assumes admin: "current_user_is_admin e d"
    and blank: "p_token = None \<or> (\<exists>s. p_token = Some s \<and> (\<forall>c \<in> set s. c = CHR '' ''))"
  shows "validate_reservation_qr e d p_token p_scanner =
           Inr (result_row None None (Some cancelled) msg_invalid_qr False False, d)"
proof -
  have "coalesce (map_option trim p_token) '''' = ''''"
  proof (cases p_token)
    case None
    then show ?thesis
      by (simp add: coalesce_def)
  next
    case (Some s)
    with blank have "\<forall>c \<in> set s. c = CHR '' ''"
      by blast
    then have "trim s = []"
      by (simp only: trim_eq_Nil_iff)
    with Some show ?thesis
      by (simp add: coalesce_def)
  qed
  with admin show ?thesis
    by (rule validate_blank)
qed

theorem blank_token_invalid_witness:
  "validate_reservation_qr ex_admin ex_db None (Some 1) =
     Inr (result_row None None (Some cancelled) msg_invalid_qr False False, ex_db)
   \<and> validate_reservation_qr ex_admin ex_db (Some ''   '') (Some 1) =
     Inr (result_row None None (Some cancelled) msg_invalid_qr False False, ex_db)"
proof -
  have h1: "current_user_is_admin ex_admin ex_db"
    by (simp add: current_user_is_admin_def ex_defs)
  have h2: "(None :: string option) = None \<or>
              (\<exists>s. None = Some s \<and> (\<forall>c \<in> set s. c = CHR '' ''))"
    by simp
  have h3: "Some ''   '' = None \<or> (\<exists>s. Some ''   '' = Some s \<and> (\<forall>c \<in> set s. c = CHR '' ''))"
    by simp
  show ?thesis
    using blank_token_invalid [OF h1 h2] blank_token_invalid [OF h1 h3] by blast
qed

text \<open>A token of one tab character is whitespace only, and \<^verbatim>\<open>trim\<close> leaves it as it is: the
  call goes on to the lookup. It reports that no reservation was found, and where a
  reservation has that token it checks the reservation in.\<close>

theorem blank_token_invalid_counterexample:
  "current_user_is_admin ex_admin ex_db
   \<and> validate_reservation_qr ex_admin ex_db (Some [CHR 0x09]) (Some 1) =
       Inr (result_row None None (Some cancelled) msg_not_found False False, ex_db)
   \<and> validate_reservation_qr ex_admin (ex_db_with [ex_res 32 2 confirmed [CHR 0x09]])
        (Some [CHR 0x09]) (Some 1) =
       Inr (result_row (Some 32) (Some 10) (Some checked_in) msg_registered False True,
            (ex_db_with [ex_res 32 2 checked_in [CHR 0x09] \<lparr>res_updated_at := 1000\<rparr>])
              \<lparr>attendance_logs :=
                 [\<lparr>log_id = 500, log_reservation_id = 32, scanned_by = Some 1,
                   scanned_at = 1000, log_created_at = 1000\<rparr>]\<rparr>)
   \<and> msg_not_found \<noteq> msg_invalid_qr"
  by code_simp

subsection \<open>Status of the results that identify no reservation\<close>

text \<open>
  Claim C10. When the caller is not an admin, when the token is empty after trimming, and
  when no reservation has the token, the routine returns one of the three messages of
  these guards, and the status field of the result is the value \<open>cancelled\<close>, not null,
  while the reservation and screening identifiers are null.
\<close>

theorem guard_outcomes_status_cancelled:
  assumes "\<not> current_user_is_admin e d
           \<or> coalesce (map_option trim p_token) '''' = ''''
           \<or> select_by_token d p_token = None"
  shows "\<exists>res. validate_reservation_qr e d p_token p_scanner = Inr (res, d)
           \<and> message res \<in> {Some msg_unauthorized, Some msg_invalid_qr, Some msg_not_found}
           \<and> status res = Some cancelled
           \<and> reservation_id res = None \<and> screening_id res = None"
proof (cases "current_user_is_admin e d")
  case False
  then show ?thesis
    by (simp add: validate_unauthorized result_row_def)
next
  case admin: True
  show ?thesis
  proof (cases "coalesce (map_option trim p_token) '''' = ''''")
    case True
    with admin show ?thesis
      by (simp add: validate_blank result_row_def)
  next
    case False
    with admin assms have "select_by_token d p_token = None"
      by blast
    with admin False show ?thesis
      by (simp add: validate_not_found result_row_def)
  qed
qed

theorem guard_outcomes_status_cancelled_witness:
  "status (fst (projr (validate_reservation_qr ex_student ex_db (Some ''a1b2c3d4e5f60718'') None))) =
     Some cancelled
   \<and> status (fst (projr (validate_reservation_qr ex_admin ex_db None None))) = Some cancelled
   \<and> status (fst (projr (validate_reservation_qr ex_admin ex_db (Some ''ffff'') None))) =
     Some cancelled"
proof -
  have h1: "\<not> current_user_is_admin ex_student ex_db
            \<or> coalesce (map_option trim (Some ''a1b2c3d4e5f60718'')) '''' = ''''
            \<or> select_by_token ex_db (Some ''a1b2c3d4e5f60718'') = None"
    by (simp add: current_user_is_admin_def ex_defs)
  have h2: "\<not> current_user_is_admin ex_admin ex_db
            \<or> coalesce (map_option trim None) '''' = ''''
            \<or> select_by_token ex_db None = None"
    by (simp add: coalesce_def)
  have h3: "\<not> current_user_is_admin ex_admin ex_db
            \<or> coalesce (map_option trim (Some ''ffff'')) '''' = ''''
            \<or> select_by_token ex_db (Some ''ffff'') = None"
    by (simp add: select_by_token_def ex_defs)
  show ?thesis
    using guard_outcomes_status_cancelled [OF h1, of None]
      guard_outcomes_status_cancelled [OF h2, of None]
      guard_outcomes_status_cancelled [OF h3, of None]
    by auto
qed

subsection \<open>Repeated scans\<close>

lemma insert_attendance_log_InrD:
  "insert_attendance_log e d rid p_scanner = Inr dl \<Longrightarrow>
     dl = d\<lparr>attendance_logs := attendance_logs d @
            [\<lparr>log_id = gen_random_uuid e, log_reservation_id = rid, scanned_by = p_scanner,
              scanned_at = now e, log_created_at = now e\<rparr>]\<rparr>"
  by (simp add: insert_attendance_log_def Let_def split: if_splits)

lemma validate_valid_cases:
  assumes "validate_reservation_qr e d p_token p_scanner = Inr (r0, d1)"
    and "is_valid r0 = Some True"
  obtains v dl where "current_user_is_admin e d"
    and "coalesce (map_option trim p_token) '''' \<noteq> ''''"
    and "select_by_token d p_token = Some v"
    and "res_status v \<noteq> cancelled"
    and "\<not> log_exists d (res_id v)"
    and "insert_attendance_log e d (res_id v) p_scanner = Inr dl"
    and "d1 = update_checked_in e dl (res_id v)"
  using assms
  by (auto simp: validate_reservation_qr_def result_row_def Let_def
           split: if_splits option.splits sum.splits)

lemma rescan_after_check_in:
  assumes nb: "coalesce (map_option trim p_token) '''' \<noteq> ''''"
    and sel: "select_by_token d p_token = Some v"
    and ins: "insert_attendance_log e0 d (res_id v) sc0 = Inr dl"
    and admin: "current_user_is_admin e (update_checked_in e0 dl (res_id v))"
  shows "validate_reservation_qr e (update_checked_in e0 dl (res_id v)) p_token p_scanner =
           Inr (result_row (Some (res_id v)) (Some (res_screening_id v)) (Some checked_in)
                  msg_already_validated True False,
                update_checked_in e0 dl (res_id v))"
proof -
  let ?d1 = "update_checked_in e0 dl (res_id v)"
  let ?v1 = "v\<lparr>res_status := checked_in, res_updated_at := now e0\<rparr>"
  note dl = insert_attendance_log_InrD [OF ins]
  have "select_by_token dl p_token = Some v"
    using sel by (simp add: dl select_by_token_def)
  then have sel1: "select_by_token ?d1 p_token = Some ?v1"
    by (rule select_by_token_update)
  have st1: "res_status ?v1 \<noteq> cancelled"
    by simp
  have log1: "log_exists ?d1 (res_id ?v1)"
    by (simp add: dl log_exists_def update_checked_in_def)
  show ?thesis
    using validate_already [OF admin nb sel1 st1 log1] by simp
qed

lemma scan_all_fixed:
  assumes step: "\<And>e sc. current_user_is_admin e d \<Longrightarrow>
                   validate_reservation_qr e d p_token sc = Inr (r, d)"
    and admins: "\<forall>c \<in> set calls. current_user_is_admin (fst c) d"
  shows "scan_all d p_token calls = (map (\<lambda>c. Inr r) calls, d)"
  using admins
proof (induction calls)
  case Nil
  show ?case by simp
next
  case (Cons c calls)
  obtain e sc where c: "c = (e, sc)"
    by (cases c)
  from Cons.prems have "current_user_is_admin e d"
    by (simp add: c)
  then have "validate_reservation_qr e d p_token sc = Inr (r, d)"
    by (rule step)
  moreover from Cons have "scan_all d p_token calls = (map (\<lambda>c. Inr r) calls, d)"
    by simp
  ultimately show ?case
    by (simp add: c)
qed

text \<open>
  Claim C2. Once a call with a token has returned valid, every later admin call with that
  token, in any number and with any scanner, returns already-scanned true and valid false
  and leaves the database as it is, so that no second attendance log is created: the table
  holds exactly one log row for the reservation after the first call and after all of them.
\<close>

theorem repeated_scans_already_scanned:
  assumes first: "validate_reservation_qr e0 d p_token sc0 = Inr (r0, d1)"
    and valid: "is_valid r0 = Some True"
    and admins: "\<forall>c \<in> set calls. current_user_is_admin (fst c) d1"
  shows "\<exists>v. select_by_token d p_token = Some v
           \<and> scan_all d1 p_token calls =
               (map (\<lambda>c. Inr (result_row (Some (res_id v)) (Some (res_screening_id v))
                                  (Some checked_in) msg_already_validated True False)) calls,
                d1)
           \<and> length (filter (\<lambda>l. log_reservation_id l = res_id v) (attendance_logs d1)) = 1"
proof -
  from first valid obtain v dl where nb: "coalesce (map_option trim p_token) '''' \<noteq> ''''"
    and sel: "select_by_token d p_token = Some v"
    and nolog: "\<not> log_exists d (res_id v)"
    and ins: "insert_attendance_log e0 d (res_id v) sc0 = Inr dl"
    and d1: "d1 = update_checked_in e0 dl (res_id v)"
    by (rule validate_valid_cases)
  note dl = insert_attendance_log_InrD [OF ins]
  have "scan_all d1 p_token calls =
          (map (\<lambda>c. Inr (result_row (Some (res_id v)) (Some (res_screening_id v))
                             (Some checked_in) msg_already_validated True False)) calls, d1)"
    using admins unfolding d1
    by (intro scan_all_fixed rescan_after_check_in [OF nb sel ins])
  moreover have "filter (\<lambda>l. log_reservation_id l = res_id v) (attendance_logs d) = []"
    using nolog by (simp add: log_exists_def filter_empty_conv)
  then have "length (filter (\<lambda>l. log_reservation_id l = res_id v) (attendance_logs d1)) = 1"
    by (simp add: d1 dl update_checked_in_def)
  ultimately show ?thesis
    using sel by blast
qed

text \<open>Two more scans of the token of reservation 20 after it has been checked in.\<close>

theorem repeated_scans_already_scanned_witness:
  "scan_all ex_db_scanned (Some ''a1b2c3d4e5f60718'')
     [(ex_admin\<lparr>now := 1010, gen_random_uuid := 501\<rparr>, Some 1), (ex_admin, None)] =
     ([Inr (result_row (Some 20) (Some 10) (Some checked_in) msg_already_validated True False),
       Inr (result_row (Some 20) (Some 10) (Some checked_in) msg_already_validated True False)],
      ex_db_scanned)
   \<and> length (filter (\<lambda>l. log_reservation_id l = 20) (attendance_logs ex_db_scanned)) = 1"
proof -
  have h1: "validate_reservation_qr ex_admin ex_db (Some ''a1b2c3d4e5f60718'') (Some 1) =
              Inr (result_row (Some 20) (Some 10) (Some checked_in) msg_registered False True,
                   ex_db_scanned)"
    by code_simp
  have h2: "is_valid (result_row (Some 20) (Some 10) (Some checked_in) msg_registered False True) =
              Some True"
    by (simp add: result_row_def)
  have h3: "\<forall>c \<in> set [(ex_admin\<lparr>now := 1010, gen_random_uuid := 501\<rparr>, Some (1::nat)),
                         (ex_admin, None)].
              current_user_is_admin (fst c) ex_db_scanned"
    by (simp add: current_user_is_admin_def ex_db_scanned_def ex_defs)
  have h4: "select_by_token ex_db (Some ''a1b2c3d4e5f60718'') =
              Some (ex_res 20 2 confirmed ''a1b2c3d4e5f60718'')"
    by (simp add: select_by_token_def ex_defs)
  show ?thesis
    using repeated_scans_already_scanned [OF h1 h2 h3] h4
    by (auto simp: ex_res_def)
qed

section \<open>Properties of the reservations table\<close>

text \<open>
  Claim C9. When the reservations table holds a reservation for a pair of screening and
  user, the insert of another row for that pair fails with a uniqueness violation (of
  \<^verbatim>\<open>reservations_user_screening_unique\<close>, or of the primary key where the new row
  repeats an identifier too) and the table is left as it was.
\<close>

theorem duplicate_reservation_rejected:
  assumes dup: "\<exists>r \<in> set (reservations d).
                  res_screening_id r = res_screening_id row \<and> res_user_id r = res_user_id row"
  shows "(insert_reservation d row = Inl (Unique_violation ''reservations_pkey'')
            \<or> insert_reservation d row =
                 Inl (Unique_violation ''reservations_user_screening_unique''))
         \<and> ((\<forall>r \<in> set (reservations d). res_id r \<noteq> res_id row) \<longrightarrow>
               insert_reservation d row =
                 Inl (Unique_violation ''reservations_user_screening_unique''))
         \<and> after_statement d (insert_reservation d row) = d"
  using dup by (auto simp: insert_reservation_def after_statement_def)

text \<open>User 2 holds reservation 20 of screening 10 and asks for another.\<close>

theorem duplicate_reservation_rejected_witness:
  "insert_reservation ex_db (ex_res 50 2 pending ''1234567890abcdef'') =
     Inl (Unique_violation ''reservations_user_screening_unique'')
   \<and> after_statement ex_db (insert_reservation ex_db (ex_res 50 2 pending ''1234567890abcdef'')) =
       ex_db"
proof -
  have h1: "\<exists>r \<in> set (reservations ex_db).
              res_screening_id r = res_screening_id (ex_res 50 2 pending ''1234567890abcdef'')
              \<and> res_user_id r = res_user_id (ex_res 50 2 pending ''1234567890abcdef'')"
    by (simp add: ex_defs)
  have h2: "\<forall>r \<in> set (reservations ex_db). res_id r \<noteq> res_id (ex_res 50 2 pending ''1234567890abcdef'')"
    by (simp add: ex_defs)
  show ?thesis
    using duplicate_reservation_rejected [OF h1] h2 by blast
qed

section \<open>Properties of the aggregation view\<close>

lemma percentage_eq:
  "percentage a b = Inr (if b = 0 then 0 else round_numeric (a / b * 100) 2)"
  by (simp add: percentage_def numeric_div_def nullif_def coalesce_def)

lemma is_active_status_iff: "is_active_status st = (st \<noteq> cancelled)"
  by (cases st) (simp_all add: is_active_status_def)

lemma screening_stats_row_eq:
  "screening_stats_row d s =
     Inr \<lparr>stat_screening_id = scr_id s, stat_movie_id = movie_id s,
          movie_title = map_option title (find (\<lambda>m. mov_id m = movie_id s) (movies d)),
          stat_starts_at = starts_at s, stat_ends_at = ends_at s,
          stat_auditorium = auditorium s, stat_capacity = capacity s,
          total_reservations = length (joined_reservations d s),
          active_reservations =
            length (filter (\<lambda>r. res_status r \<noteq> cancelled) (joined_reservations d s)),
          checked_in_count =
            length (filter (\<lambda>r. res_status r = checked_in) (joined_reservations d s)),
          occupancy_rate =
            (if capacity s = 0 then 0
             else round_numeric
                    (of_nat (length (joined_reservations d s)) / of_int (capacity s) * 100) 2),
          attendance_rate =
            (if length (joined_reservations d s) = 0 then 0
             else round_numeric
                    (of_nat (length (filter (\<lambda>r. res_status r = checked_in)
                                       (joined_reservations d s)))
                       / of_nat (length (joined_reservations d s)) * 100) 2),
          stat_created_at = scr_created_at s, stat_updated_at = scr_updated_at s\<rparr>"
  by (simp add: screening_stats_row_def percentage_eq is_active_status_iff Let_def)

text \<open>The view never fails, and its rows are the rows of the screenings, in order.\<close>

lemma screening_stats_rows_total:
  "\<exists>rows. screening_stats_rows d ss = Inr rows \<and> map Inr rows = map (screening_stats_row d) ss"
proof (induction ss)
  case Nil
  show ?case by simp
next
  case (Cons s ss)
  then obtain rows where "screening_stats_rows d ss = Inr rows"
    and "map Inr rows = map (screening_stats_row d) ss"
    by blast
  moreover obtain row where "screening_stats_row d s = Inr row"
    using screening_stats_row_eq [of d s] by blast
  ultimately show ?case
    by simp
qed

text \<open>\<open>round_numeric\<close> returns a value within half a unit of the last place.\<close>

lemma round_numeric_nearest: "\<bar>round_numeric v s - v\<bar> \<le> 1 / (2 * 10 ^ s)"
proof -
  have close: "\<bar>of_int \<lfloor>y + 1 / 2\<rfloor> - y\<bar> \<le> 1 / 2" for y :: rat
  proof -
    have "of_int \<lfloor>y + 1 / 2\<rfloor> \<le> y + 1 / 2"
      by (rule of_int_floor_le)
    moreover have "y + 1 / 2 < of_int \<lfloor>y + 1 / 2\<rfloor> + 1"
      using floor_correct [of "y + 1 / 2"] by simp
    ultimately show ?thesis
      by linarith
  qed
  have pos: "(0::rat) < 10 ^ s"
    by simp
  show ?thesis
  proof (cases "0 \<le> v")
    case True
    have "round_numeric v s - v = (of_int \<lfloor>v * 10 ^ s + 1 / 2\<rfloor> - v * 10 ^ s) / 10 ^ s"
      using True by (simp add: round_numeric_def field_simps)
    then have "\<bar>round_numeric v s - v\<bar> = \<bar>of_int \<lfloor>v * 10 ^ s + 1 / 2\<rfloor> - v * 10 ^ s\<bar> / 10 ^ s"
      by simp
    also have "\<dots> \<le> (1 / 2) / 10 ^ s"
      by (rule divide_right_mono [OF close less_imp_le [OF pos]])
    finally show ?thesis
      by simp
  next
    case False
    have "round_numeric v s - v = - ((of_int \<lfloor>- v * 10 ^ s + 1 / 2\<rfloor> - (- v * 10 ^ s)) / 10 ^ s)"
      using False by (simp add: round_numeric_def field_simps)
    then have "\<bar>round_numeric v s - v\<bar> = \<bar>of_int \<lfloor>- v * 10 ^ s + 1 / 2\<rfloor> - (- v * 10 ^ s)\<bar> / 10 ^ s"
      by simp
    also have "\<dots> \<le> (1 / 2) / 10 ^ s"
      by (rule divide_right_mono [OF close less_imp_le [OF pos]])
    finally show ?thesis
      by simp
  qed
qed

lemma floor_a: "\<lfloor>12001 / 2 :: rat\<rfloor> = 6000"
  by (rule floor_unique) simp_all

lemma floor_b: "\<lfloor>20003 / 6 :: rat\<rfloor> = 3333"
  by (rule floor_unique) simp_all

lemma floor_c: "\<lfloor>1 / 2 :: rat\<rfloor> = 0"
  by (rule floor_unique) simp_all

lemma round_60: "round_numeric (of_nat 30 / of_int 50 * 100) 2 = 60"
  by (simp add: round_numeric_def floor_a)

lemma round_3333: "round_numeric (of_nat 10 / of_nat 30 * 100) 2 = 3333 / 100"
  by (simp add: round_numeric_def floor_b)

text \<open>
  Claim C7. For every screening the row of the view is computed without a division fault;
  its occupancy rate is \<open>round (total / capacity * 100, 2)\<close>, and 0 when the capacity is
  zero; its attendance rate is \<open>round (checked_in / total * 100, 2)\<close>, and 0 when the
  screening has no reservation. A screening of capacity 50 with 30 reservations of which 10
  are checked in has occupancy rate 60.00 and attendance rate 33.33.
\<close>

theorem screening_stats_rates:
  "\<exists>row. screening_stats_row d s = Inr row
     \<and> (capacity s \<noteq> 0 \<longrightarrow>
          occupancy_rate row =
            round_numeric (of_nat (total_reservations row) / of_int (capacity s) * 100) 2)
     \<and> (capacity s = 0 \<longrightarrow> occupancy_rate row = 0)
     \<and> (total_reservations row \<noteq> 0 \<longrightarrow>
          attendance_rate row =
            round_numeric (of_nat (checked_in_count row) / of_nat (total_reservations row) * 100) 2)
     \<and> (total_reservations row = 0 \<longrightarrow> attendance_rate row = 0 \<and> occupancy_rate row = 0)
     \<and> (capacity s = 50 \<and> total_reservations row = 30 \<and> checked_in_count row = 10 \<longrightarrow>
          occupancy_rate row = 60 \<and> attendance_rate row = 3333 / 100)"
proof -
  have "capacity s = 50 \<Longrightarrow> length (joined_reservations d s) = 30 \<Longrightarrow>
        round_numeric (of_nat (length (joined_reservations d s)) / of_int (capacity s) * 100) 2 = 60"
    using round_60 by simp
  moreover have "length (joined_reservations d s) = 30 \<Longrightarrow>
        length (filter (\<lambda>r. res_status r = checked_in) (joined_reservations d s)) = 10 \<Longrightarrow>
        round_numeric (of_nat (length (filter (\<lambda>r. res_status r = checked_in)
                                         (joined_reservations d s)))
                         / of_nat (length (joined_reservations d s)) * 100) 2 = 3333 / 100"
    using round_3333 by simp
  moreover have "round_numeric 0 2 = 0"
    by (simp add: round_numeric_def floor_c)
  ultimately show ?thesis
    unfolding screening_stats_row_eq by simp
qed

text \<open>The scenario at a table of thirty reservations, and a screening of capacity zero
  without reservations.\<close>

theorem screening_stats_rates_witness:
  "occupancy_rate (projr (screening_stats_row (ex_db_with ex_dune_reservations) ex_screening)) = 60
   \<and> attendance_rate (projr (screening_stats_row (ex_db_with ex_dune_reservations) ex_screening)) =
       3333 / 100
   \<and> occupancy_rate (projr (screening_stats_row (ex_db_with []) (ex_screening\<lparr>capacity := 0\<rparr>))) = 0
   \<and> attendance_rate (projr (screening_stats_row (ex_db_with []) (ex_screening\<lparr>capacity := 0\<rparr>))) = 0"
proof -
  have h1: "capacity ex_screening = 50"
    by (simp add: ex_defs)
  have h2: "total_reservations
              (projr (screening_stats_row (ex_db_with ex_dune_reservations) ex_screening)) = 30"
    by code_simp
  have h3: "checked_in_count
              (projr (screening_stats_row (ex_db_with ex_dune_reservations) ex_screening)) = 10"
    by code_simp
  have h4: "capacity (ex_screening\<lparr>capacity := 0\<rparr>) = 0"
    by simp
  have h5: "total_reservations
              (projr (screening_stats_row (ex_db_with []) (ex_screening\<lparr>capacity := 0\<rparr>))) = 0"
    by code_simp
  show ?thesis
    using screening_stats_rates [of "ex_db_with ex_dune_reservations" ex_screening]
      screening_stats_rates [of "ex_db_with []" "ex_screening\<lparr>capacity := 0\<rparr>"]
      h1 h2 h3 h4 h5
    by auto
qed

text \<open>
  Claim C8. For every screening the view counts as total all the reservations joined to it,
  as active those whose status is pending, confirmed, checked_in or no_show, which are
  those that are not cancelled, and as checked in those whose status is checked_in: the
  cancelled reservations are in the total and not in the active count.
\<close>

theorem screening_stats_counts:
  "\<exists>row. screening_stats_row d s = Inr row
     \<and> total_reservations row = length (joined_reservations d s)
     \<and> active_reservations row =
         length (filter (\<lambda>r. res_status r \<in> {pending, confirmed, checked_in, no_show})
                   (joined_reservations d s))
     \<and> active_reservations row =
         length (filter (\<lambda>r. res_status r \<noteq> cancelled) (joined_reservations d s))
     \<and> checked_in_count row =
         length (filter (\<lambda>r. res_status r = checked_in) (joined_reservations d s))
     \<and> total_reservations row =
         active_reservations row
           + length (filter (\<lambda>r. res_status r = cancelled) (joined_reservations d s))"
proof -
  have act: "(st \<in> {pending, confirmed, checked_in, no_show}) = (st \<noteq> cancelled)" for st
    by (cases st) simp_all
  have split:
    "length (filter (\<lambda>r. res_status r \<noteq> cancelled) xs)
       + length (filter (\<lambda>r. res_status r = cancelled) xs) = length xs"
    for xs :: "reservation list"
    using sum_length_filter_compl [of "\<lambda>r. res_status r \<noteq> cancelled" xs] by simp
  show ?thesis
    unfolding screening_stats_row_eq act by (simp add: split)
qed

text \<open>The example screening has three reservations: one confirmed, one cancelled, one
  checked in.\<close>

theorem screening_stats_counts_witness:
  "screening_stats_row ex_db ex_screening =
     Inr \<lparr>stat_screening_id = 10, stat_movie_id = 5, movie_title = Some ''Dune Part 2'',
          stat_starts_at = 2000, stat_ends_at = None, stat_auditorium = ''A'',
          stat_capacity = 50, total_reservations = 3, active_reservations = 2,
          checked_in_count = 1, occupancy_rate = 6, attendance_rate = 3333 / 100,
          stat_created_at = 800, stat_updated_at = 800\<rparr>
   \<and> length (filter (\<lambda>r. res_status r = cancelled) (joined_reservations ex_db ex_screening)) = 1"
proof -
  have h: "screening_stats_row ex_db ex_screening =
     Inr \<lparr>stat_screening_id = 10, stat_movie_id = 5, movie_title = Some ''Dune Part 2'',
          stat_starts_at = 2000, stat_ends_at = None, stat_auditorium = ''A'',
          stat_capacity = 50, total_reservations = 3, active_reservations = 2,
          checked_in_count = 1, occupancy_rate = 6, attendance_rate = 3333 / 100,
          stat_created_at = 800, stat_updated_at = 800\<rparr>"
    by code_simp
  show ?thesis
    using screening_stats_counts [of ex_db ex_screening] h by auto
qed

end
